theory Spec2Isabelle
  imports Main
begin

section \<open>Values, dictionaries and errors\<close>

text \<open>
  The recommender module \<^verbatim>\<open>ml_model.py\<close> works on plain Python dictionaries. A customer
  record and a campaign outcome are dictionaries from field names to values; the values the
  application stores are strings (ids, names, interest tags, products) and integers (the
  engagement metrics). The customers collection is a dictionary from customer id to customer
  record, the campaigns collection a list of campaign outcomes in insertion order.
\<close>

datatype pyval = PStr string | PInt int

type_synonym pydict = "string \<rightharpoonup> pyval"

type_synonym customers = "pyval \<rightharpoonup> pydict"

text \<open>
  Every exception the module can raise is a value. \<open>KeyError\<close> carries the key of the failed
  subscript \<^verbatim>\<open>c["..."]\<close>; \<open>AttributeError\<close> is \<^verbatim>\<open>.lower()\<close> on a value that is not a
  string; \<open>OSError\<close> is a refused \<^verbatim>\<open>open\<close>; \<open>EOFError\<close> and \<open>UnpicklingError\<close> are what
  \<^verbatim>\<open>pickle.load\<close> raises on an empty file and on bytes that are no pickle of a pair;
  \<open>ValueError\<close> is what a fit of the learning library may raise.
\<close>

datatype error =
    KeyError string
  | AttributeError
  | ValueError
  | OSError
  | EOFError
  | UnpicklingError

text \<open>\<^verbatim>\<open>d.get(k, default)\<close>\<close>

definition dict_get :: "('k \<rightharpoonup> 'v) \<Rightarrow> 'k \<Rightarrow> 'v \<Rightarrow> 'v" where
  "dict_get d k dflt = (case d k of None \<Rightarrow> dflt | Some v \<Rightarrow> v)"

text \<open>
  \<^verbatim>\<open>s.lower()\<close>. A \<open>string\<close> is a list of bytes, so the model lower-cases the ASCII letters
  and leaves every other byte alone. Python also lower-cases letters outside ASCII; none of
  them becomes a letter of the four keys of the fallback table (the only such letter that
  turns into an ASCII one is the Kelvin sign, into \<open>k\<close>), so the table lookup below is not
  affected.
\<close>

definition char_lower :: "char \<Rightarrow> char" where
  "char_lower c =
     (case map_of (zip ''ABCDEFGHIJKLMNOPQRSTUVWXYZ'' ''abcdefghijklmnopqrstuvwxyz'') c of
        None \<Rightarrow> c
      | Some l \<Rightarrow> l)"

definition lower :: "string \<Rightarrow> string" where
  "lower s = map char_lower s"

section \<open>The learning library and the model file\<close>

text \<open>
  A fitted \<^verbatim>\<open>DictVectorizer\<close> is its \<^verbatim>\<open>transform\<close> on one feature dictionary, a fitted
  \<^verbatim>\<open>LogisticRegression\<close> is its \<^verbatim>\<open>predict\<close> on one vector; both work row by row. The
  vector space \<open>'x\<close>, the fit of the vectorizer and the numerical optimisation of the
  classifier (\<^verbatim>\<open>lbfgs\<close>, the solver \<^verbatim>\<open>LogisticRegression(max_iter=500)\<close> runs) are those of
  scikit-learn, which is not part of the repository: they are parameters of the model. Each
  may raise.
\<close>

type_synonym 'x vectorizer = "pydict \<Rightarrow> 'x"

type_synonym 'x classifier = "'x \<Rightarrow> pyval"

type_synonym 'x model = "'x vectorizer \<times> 'x classifier"

record 'x sklearn =
  DictVectorizer_fit :: "pydict list \<Rightarrow> error + 'x vectorizer"
  lbfgs :: "'x list \<Rightarrow> pyval list \<Rightarrow> error + 'x classifier"

text \<open>
  \<^verbatim>\<open>clf.fit(X_vec, y)\<close>. Before it optimises anything, the fit of \<^verbatim>\<open>LogisticRegression\<close>
  takes the distinct labels of \<^verbatim>\<open>y\<close> as its classes and raises a \<open>ValueError\<close> when there are
  fewer than two of them (\<^verbatim>\<open>This solver needs samples of at least 2 classes in the data\<close>).
\<close>

definition LogisticRegression_fit ::
  "'x sklearn \<Rightarrow> 'x list \<Rightarrow> pyval list \<Rightarrow> error + 'x classifier" where
  "LogisticRegression_fit sk X_vec y =
     (if length (remdups y) < 2 then Inl ValueError else lbfgs sk X_vec y)"

text \<open>
  The file at \<^verbatim>\<open>MODEL_PATH\<close>. Its content is the pickle of a pair, written by
  \<^verbatim>\<open>pickle.dump((vec, clf), f)\<close> and read back by \<^verbatim>\<open>pickle.load\<close> as that pair; or nothing
  at all, which is what \<^verbatim>\<open>open(MODEL_PATH, "wb")\<close> leaves before anything is written; or
  any other bytes. \<open>model_path = None\<close> is a path that does not exist. \<open>readable\<close> and \<open>writable\<close>
  say whether the process may open the path for reading and for writing.
\<close>

datatype 'x content = Pickle "'x model" | Empty | Corrupt

record 'x fs =
  model_path :: "'x content option"
  readable :: bool
  writable :: bool

text \<open>\<^verbatim>\<open>open(MODEL_PATH, "wb")\<close>: mode \<^verbatim>\<open>w\<close> truncates the file, or creates it.\<close>

definition open_wb :: "'x fs \<Rightarrow> error + 'x fs" where
  "open_wb s = (if writable s then Inr (s\<lparr>model_path := Some Empty\<rparr>) else Inl OSError)"

text \<open>
  \<^verbatim>\<open>pickle.dump((vec, clf), f)\<close> and the close of \<^verbatim>\<open>f\<close> at the end of the \<^verbatim>\<open>with\<close> block, when
  they complete. A write that fails after the \<^verbatim>\<open>open\<close> (a full disk, a quota) is not a case of
  this function: the only failure of the save that \<open>train_and_save\<close> below can end in is a
  refused \<^verbatim>\<open>open\<close>. What a dump that does not complete leaves behind is the file the \<^verbatim>\<open>open\<close>
  left, the first of the \<open>save_states\<close> below.
\<close>

definition pickle_dump :: "'x model \<Rightarrow> 'x fs \<Rightarrow> 'x fs" where
  "pickle_dump m s = s\<lparr>model_path := Some (Pickle m)\<rparr>"

text \<open>\<^verbatim>\<open>open(MODEL_PATH, "rb")\<close> followed by \<^verbatim>\<open>vec, clf = pickle.load(f)\<close>.\<close>

definition pickle_load :: "'x fs \<Rightarrow> 'x content \<Rightarrow> error + 'x model" where
  "pickle_load s c =
     (if \<not> readable s then Inl OSError
      else case c of
             Pickle m \<Rightarrow> Inr m
           | Empty \<Rightarrow> Inl EOFError
           | Corrupt \<Rightarrow> Inl UnpicklingError)"

section \<open>The module\<close>

text \<open>The dictionary literal of lines 31 to 36 and 103 to 108.\<close>

definition features :: "pyval \<Rightarrow> pyval \<Rightarrow> pyval \<Rightarrow> pyval \<Rightarrow> pydict" where
  "features interest open_rate click_rate conversions =
     [''interest'' \<mapsto> interest,
      ''open_rate'' \<mapsto> open_rate,
      ''click_rate'' \<mapsto> click_rate,
      ''conversions'' \<mapsto> conversions]"

text \<open>
  \<^verbatim>\<open>build_training_data\<close>: the loop over the campaigns, which appends one feature dictionary
  and one label for each campaign and raises at the first campaign without a
  \<^verbatim>\<open>customer_id\<close> or a \<^verbatim>\<open>product\<close>.
\<close>

fun build_training_data :: "customers \<Rightarrow> pydict list \<Rightarrow> error + (pydict list \<times> pyval list)" where
  "build_training_data customers [] = Inr ([], [])"
| "build_training_data customers (c # campaigns) =
     (case c ''customer_id'' of
        None \<Rightarrow> Inl (KeyError ''customer_id'')
      | Some cust_id \<Rightarrow>
          (let cust = dict_get customers cust_id Map.empty;
               interest = dict_get cust ''interest'' (PStr ''unknown'');
               open_rate = dict_get c ''open_rate'' (PInt 0);
               click_rate = dict_get c ''click_rate'' (PInt 0);
               conversions = dict_get c ''conversions'' (PInt 0)
           in case c ''product'' of
                None \<Rightarrow> Inl (KeyError ''product'')
              | Some product \<Rightarrow>
                  (case build_training_data customers campaigns of
                     Inl e \<Rightarrow> Inl e
                   | Inr (X, y) \<Rightarrow>
                       Inr (features interest open_rate click_rate conversions # X,
                            product # y))))"

text \<open>
  \<^verbatim>\<open>train_and_save\<close> returns \<^verbatim>\<open>None\<close> or the fitted pair, or raises; the second component
  is the file system it leaves.
\<close>

definition train_and_save ::
  "'x sklearn \<Rightarrow> 'x fs \<Rightarrow> customers \<Rightarrow> pydict list \<Rightarrow> (error + 'x model option) \<times> 'x fs" where
  "train_and_save sk s customers campaigns =
     (case build_training_data customers campaigns of
        Inl e \<Rightarrow> (Inl e, s)
      | Inr (X, y) \<Rightarrow>
          if length X < 5 then (Inr None, s)
          else
            (case DictVectorizer_fit sk X of
               Inl e \<Rightarrow> (Inl e, s)
             | Inr vec \<Rightarrow>
                 (let X_vec = map vec X in
                  case LogisticRegression_fit sk X_vec y of
                    Inl e \<Rightarrow> (Inl e, s)
                  | Inr clf \<Rightarrow>
                      (case open_wb s of
                         Inl e \<Rightarrow> (Inl e, s)
                       | Inr s' \<Rightarrow> (Inr (Some (vec, clf)), pickle_dump (vec, clf) s')))))"

definition load_model :: "'x fs \<Rightarrow> error + 'x model option" where
  "load_model s =
     (case model_path s of
        None \<Rightarrow> Inr None
      | Some c \<Rightarrow> (case pickle_load s c of Inl e \<Rightarrow> Inl e | Inr m \<Rightarrow> Inr (Some m)))"

text \<open>The fallback table of \<^verbatim>\<open>recommend\<close>.\<close>

definition mapping :: "string \<rightharpoonup> pyval" where
  "mapping =
     [''electronics'' \<mapsto> PStr ''Wireless Headphones'',
      ''gadgets'' \<mapsto> PStr ''Smartwatch'',
      ''computers'' \<mapsto> PStr ''Laptop'',
      ''music'' \<mapsto> PStr ''Bluetooth Speaker'']"

text \<open>
  The list comprehension \<^verbatim>\<open>[c for c in campaigns if c["customer_id"] == customer_id]\<close>: it
  subscripts every campaign, so a campaign without a \<^verbatim>\<open>customer_id\<close> raises.
\<close>

fun recent_campaigns :: "pydict list \<Rightarrow> pyval \<Rightarrow> error + pydict list" where
  "recent_campaigns [] customer_id = Inr []"
| "recent_campaigns (c # campaigns) customer_id =
     (case c ''customer_id'' of
        None \<Rightarrow> Inl (KeyError ''customer_id'')
      | Some v \<Rightarrow>
          (case recent_campaigns campaigns customer_id of
             Inl e \<Rightarrow> Inl e
           | Inr recent \<Rightarrow> Inr (if v = customer_id then c # recent else recent)))"

definition recommend :: "'x fs \<Rightarrow> customers \<Rightarrow> pydict list \<Rightarrow> pyval \<Rightarrow> error + pyval" where
  "recommend s customers campaigns customer_id =
     (case load_model s of
        Inl e \<Rightarrow> Inl e
      | Inr model \<Rightarrow>
          (let cust = dict_get customers customer_id Map.empty;
               interest = dict_get cust ''interest'' (PStr ''unknown'')
           in case model of
                None \<Rightarrow>
                  (case interest of
                     PStr i \<Rightarrow> Inr (dict_get mapping (lower i) (PStr ''Wireless Headphones''))
                   | PInt _ \<Rightarrow> Inl AttributeError)
              | Some (vec, clf) \<Rightarrow>
                  (case recent_campaigns campaigns customer_id of
                     Inl e \<Rightarrow> Inl e
                   | Inr recent \<Rightarrow>
                       (let (open_rate, click_rate, conversions) =
                              (if recent \<noteq> [] then
                                 (dict_get (last recent) ''open_rate'' (PInt 0),
                                  dict_get (last recent) ''click_rate'' (PInt 0),
                                  dict_get (last recent) ''conversions'' (PInt 0))
                               else (PInt 0, PInt 0, PInt 0))
                        in Inr (clf (vec (features interest open_rate click_rate conversions)))))))"

section \<open>The save, step by step\<close>

text \<open>
  Lines 57 and 58 change the file twice: \<^verbatim>\<open>open(MODEL_PATH, "wb")\<close> empties it, the dump and
  the close of the \<^verbatim>\<open>with\<close> block fill it. \<open>save_states\<close> lists the file systems that a
  reader of the path finds after each of the two steps (none when the \<^verbatim>\<open>open\<close> is refused);
  the last one is the file system \<open>train_and_save\<close> returns.
\<close>

definition save_states :: "'x fs \<Rightarrow> 'x model \<Rightarrow> 'x fs list" where
  "save_states s m = (case open_wb s of Inl e \<Rightarrow> [] | Inr s' \<Rightarrow> [s', pickle_dump m s'])"

section \<open>Data to evaluate the module on\<close>

text \<open>
  A campaign outcome as \<^verbatim>\<open>launch_campaign\<close> of \<^verbatim>\<open>app.py\<close> appends it (without its \<^verbatim>\<open>id\<close> and
  its \<^verbatim>\<open>created_at\<close>, which the recommender never reads).
\<close>

definition campaign :: "string \<Rightarrow> string \<Rightarrow> int \<Rightarrow> int \<Rightarrow> int \<Rightarrow> pydict" where
  "campaign cid product opens clicks conv =
     [''customer_id'' \<mapsto> PStr cid,
      ''product'' \<mapsto> PStr product,
      ''status'' \<mapsto> PStr ''Sent'',
      ''open_rate'' \<mapsto> PInt opens,
      ''click_rate'' \<mapsto> PInt clicks,
      ''conversions'' \<mapsto> PInt conv]"

text \<open>Five customers; \<open>c3\<close> has no interest tag, and no customer is called \<open>c9\<close>.\<close>

definition customers0 :: customers where
  "customers0 =
     [PStr ''c1'' \<mapsto> [''name'' \<mapsto> PStr ''Ann'', ''interest'' \<mapsto> PStr ''Computers''],
      PStr ''c2'' \<mapsto> [''name'' \<mapsto> PStr ''Bob'', ''interest'' \<mapsto> PStr ''music''],
      PStr ''c3'' \<mapsto> [''name'' \<mapsto> PStr ''Cy''],
      PStr ''c4'' \<mapsto> [''name'' \<mapsto> PStr ''Dee'', ''interest'' \<mapsto> PStr ''GADGETS''],
      PStr ''c5'' \<mapsto> [''name'' \<mapsto> PStr ''Eve'', ''interest'' \<mapsto> PStr ''Electronics'']]"

text \<open>A history of four campaigns, the third for a customer that does not exist, and one of five.\<close>

definition history4 :: "pydict list" where
  "history4 =
     [campaign ''c1'' ''Laptop'' 50 20 3,
      campaign ''c2'' ''Bluetooth Speaker'' 40 10 1,
      campaign ''c9'' ''Smartwatch'' 30 5 0,
      campaign ''c1'' ''Laptop'' 60 30 2]"

definition history5 :: "pydict list" where
  "history5 = history4 @ [campaign ''c2'' ''Bluetooth Speaker'' 70 35 4]"

text \<open>
  The history with a single product: six customers who like computers, and one campaign for
  each of the first five, all for the laptop.
\<close>

definition computers6 :: customers where
  "computers6 =
     [PStr ''c1'' \<mapsto> [''name'' \<mapsto> PStr ''Ann'', ''interest'' \<mapsto> PStr ''computers''],
      PStr ''c2'' \<mapsto> [''name'' \<mapsto> PStr ''Bob'', ''interest'' \<mapsto> PStr ''computers''],
      PStr ''c3'' \<mapsto> [''name'' \<mapsto> PStr ''Cy'', ''interest'' \<mapsto> PStr ''computers''],
      PStr ''c4'' \<mapsto> [''name'' \<mapsto> PStr ''Dee'', ''interest'' \<mapsto> PStr ''computers''],
      PStr ''c5'' \<mapsto> [''name'' \<mapsto> PStr ''Eve'', ''interest'' \<mapsto> PStr ''computers''],
      PStr ''c6'' \<mapsto> [''name'' \<mapsto> PStr ''Fay'', ''interest'' \<mapsto> PStr ''computers'']]"

definition laptops5 :: "pydict list" where
  "laptops5 =
     [campaign ''c1'' ''Laptop'' 50 20 3,
      campaign ''c2'' ''Laptop'' 40 10 1,
      campaign ''c3'' ''Laptop'' 30 5 0,
      campaign ''c4'' ''Laptop'' 60 30 2,
      campaign ''c5'' ''Laptop'' 70 35 4]"

text \<open>A campaign that lost its product.\<close>

definition no_product :: pydict where
  "no_product = [''customer_id'' \<mapsto> PStr ''c1'', ''open_rate'' \<mapsto> PInt 10]"

text \<open>
  A learner to run the training with. Its vectorizer is the identity on feature dictionaries;
  its classifier answers the label of the first training example that has the interest asked
  for, and the first label when there is none.
\<close>

definition table_learner :: "pydict sklearn" where
  "table_learner =
     \<lparr>DictVectorizer_fit = (\<lambda>X. Inr (\<lambda>d. d)),
      lbfgs = (\<lambda>X_vec y.
        Inr (\<lambda>x. case map_of (zip (map (\<lambda>d. d ''interest'') X_vec) y) (x ''interest'') of
                   None \<Rightarrow> hd y
                 | Some label \<Rightarrow> label))\<rparr>"

text \<open>A model saved earlier: it recommends the smartwatch to everybody.\<close>

definition old_model :: "pydict model" where
  "old_model = (\<lambda>d. d, \<lambda>x. PStr ''Smartwatch'')"

text \<open>
  A model that shows which engagement values it was asked about: it recommends the laptop
  for an open rate of 60, the bluetooth speaker for an open rate of 0 and the smartwatch
  otherwise.
\<close>

definition probe_model :: "pydict model" where
  "probe_model =
     (\<lambda>d. d,
      \<lambda>x. if x ''open_rate'' = Some (PInt 60) then PStr ''Laptop''
          else if x ''open_rate'' = Some (PInt 0) then PStr ''Bluetooth Speaker''
          else PStr ''Smartwatch'')"

text \<open>
  File systems: no model file yet; the old model saved; the probe model saved; a model file
  that holds something else.
\<close>

definition fresh :: "pydict fs" where
  "fresh = \<lparr>model_path = None, readable = True, writable = True\<rparr>"

definition saved :: "pydict fs" where
  "saved = \<lparr>model_path = Some (Pickle old_model), readable = True, writable = True\<rparr>"


definition corrupt :: "pydict fs" where
  "corrupt = \<lparr>model_path = Some Corrupt, readable = True, writable = True\<rparr>"

section \<open>The training data\<close>

lemma build_training_data_Inr_Cons:
  "build_training_data customers (c # campaigns) = Inr (X, y) \<longleftrightarrow>
     (\<exists>cust_id product X' y'.
        c ''customer_id'' = Some cust_id \<and> c ''product'' = Some product \<and>
        build_training_data customers campaigns = Inr (X', y') \<and>
        X = features (dict_get (dict_get customers cust_id Map.empty) ''interest'' (PStr ''unknown''))
              (dict_get c ''open_rate'' (PInt 0)) (dict_get c ''click_rate'' (PInt 0))
              (dict_get c ''conversions'' (PInt 0)) # X' \<and>
        y = product # y')"
  by (auto simp: Let_def split: option.splits sum.splits)

lemma build_training_data_total:
  "\<forall>c\<in>set campaigns. c ''customer_id'' \<noteq> None \<and> c ''product'' \<noteq> None \<Longrightarrow>
   \<exists>X y. build_training_data customers campaigns = Inr (X, y)"
proof (induction campaigns)
  case Nil
  show ?case by simp
next
  case (Cons c campaigns)
  then obtain X y where "build_training_data customers campaigns = Inr (X, y)"
    by auto
  moreover from Cons.prems obtain cust_id product
    where "c ''customer_id'' = Some cust_id" "c ''product'' = Some product"
    by auto
  ultimately show ?case
    by (simp add: build_training_data_Inr_Cons del: build_training_data.simps(2))
qed

lemma build_training_data_length:
  "build_training_data customers campaigns = Inr (X, y) \<Longrightarrow>
   length X = length campaigns \<and> length y = length campaigns"
  by (induction campaigns arbitrary: X y)
    (auto simp: build_training_data_Inr_Cons simp del: build_training_data.simps(2))

lemma build_training_data_nth:
  "build_training_data customers campaigns = Inr (X, y) \<Longrightarrow> i < length campaigns \<Longrightarrow>
   \<exists>cust_id. (campaigns ! i) ''customer_id'' = Some cust_id \<and>
     X ! i = features (dict_get (dict_get customers cust_id Map.empty) ''interest'' (PStr ''unknown''))
               (dict_get (campaigns ! i) ''open_rate'' (PInt 0))
               (dict_get (campaigns ! i) ''click_rate'' (PInt 0))
               (dict_get (campaigns ! i) ''conversions'' (PInt 0)) \<and>
     (campaigns ! i) ''product'' = Some (y ! i)"
proof (induction campaigns arbitrary: X y i)
  case Nil
  then show ?case by simp
next
  case (Cons c campaigns)
  from Cons.prems(1) obtain cust_id product X' y' where
    c: "c ''customer_id'' = Some cust_id" "c ''product'' = Some product" and
    rest: "build_training_data customers campaigns = Inr (X', y')" and
    X: "X = features (dict_get (dict_get customers cust_id Map.empty) ''interest'' (PStr ''unknown''))
              (dict_get c ''open_rate'' (PInt 0)) (dict_get c ''click_rate'' (PInt 0))
              (dict_get c ''conversions'' (PInt 0)) # X'" and
    y: "y = product # y'"
    unfolding build_training_data_Inr_Cons by blast
  show ?case
  proof (cases i)
    case 0
    with c X y show ?thesis by simp
  next
    case (Suc j)
    with Cons.prems(2) have "j < length campaigns" by simp
    from Cons.IH [OF rest this] Suc X y show ?thesis by simp
  qed
qed

lemma build_training_data_KeyError:
  "\<exists>c\<in>set campaigns. c ''customer_id'' = None \<or> c ''product'' = None \<Longrightarrow>
   \<exists>k\<in>{''customer_id'', ''product''}. build_training_data customers campaigns = Inl (KeyError k)"
proof (induction campaigns)
  case Nil
  then show ?case by simp
next
  case (Cons c campaigns)
  show ?case
  proof (cases "c ''customer_id'' = None \<or> c ''product'' = None")
    case True
    then show ?thesis by (auto simp: Let_def split: option.splits)
  next
    case False
    with Cons.prems have "\<exists>c\<in>set campaigns. c ''customer_id'' = None \<or> c ''product'' = None"
      by auto
    from Cons.IH [OF this] False show ?thesis
      by (auto simp: Let_def split: option.splits)
  qed
qed

lemma features_dom:
  "dom (features a b c d) = {''interest'', ''open_rate'', ''click_rate'', ''conversions''}"
  by (auto simp: features_def)

text \<open>
  Claim C10. On a campaigns list whose elements all have the keys \<^verbatim>\<open>customer_id\<close> and
  \<^verbatim>\<open>product\<close>, \<open>build_training_data\<close> returns: it gives two lists \<open>X\<close> and \<open>y\<close> as long as
  the campaigns list; the \<open>i\<close>-th feature dictionary holds, under its four keys, the interest
  of the customer of the \<open>i\<close>-th campaign and the three engagement values of that campaign
  (with the defaults of the code), and \<open>y ! i\<close> is the product of that campaign. On a list
  with an element that lacks one of the two keys it raises a \<open>KeyError\<close> for that key; the
  element is not skipped.
\<close>

theorem build_training_data_in_order:
  "((\<forall>c\<in>set campaigns. c ''customer_id'' \<noteq> None \<and> c ''product'' \<noteq> None) \<longrightarrow>
      (\<exists>X y. build_training_data customers campaigns = Inr (X, y) \<and>
         length X = length campaigns \<and> length y = length campaigns \<and>
         (\<forall>i<length campaigns. \<exists>cust_id.
            (campaigns ! i) ''customer_id'' = Some cust_id \<and>
            X ! i =
              [''interest'' \<mapsto>
                 dict_get (dict_get customers cust_id Map.empty) ''interest'' (PStr ''unknown''),
               ''open_rate'' \<mapsto> dict_get (campaigns ! i) ''open_rate'' (PInt 0),
               ''click_rate'' \<mapsto> dict_get (campaigns ! i) ''click_rate'' (PInt 0),
               ''conversions'' \<mapsto> dict_get (campaigns ! i) ''conversions'' (PInt 0)] \<and>
            (campaigns ! i) ''product'' = Some (y ! i)))) \<and>
   ((\<exists>c\<in>set campaigns. c ''customer_id'' = None \<or> c ''product'' = None) \<longrightarrow>
      (\<exists>k\<in>{''customer_id'', ''product''}.
         build_training_data customers campaigns = Inl (KeyError k)))"
proof (intro conjI impI)
  assume "\<forall>c\<in>set campaigns. c ''customer_id'' \<noteq> None \<and> c ''product'' \<noteq> None"
  from build_training_data_total [OF this] obtain X y
    where b: "build_training_data customers campaigns = Inr (X, y)" by blast
  have "\<forall>i<length campaigns. \<exists>cust_id.
            (campaigns ! i) ''customer_id'' = Some cust_id \<and>
            X ! i =
              [''interest'' \<mapsto>
                 dict_get (dict_get customers cust_id Map.empty) ''interest'' (PStr ''unknown''),
               ''open_rate'' \<mapsto> dict_get (campaigns ! i) ''open_rate'' (PInt 0),
               ''click_rate'' \<mapsto> dict_get (campaigns ! i) ''click_rate'' (PInt 0),
               ''conversions'' \<mapsto> dict_get (campaigns ! i) ''conversions'' (PInt 0)] \<and>
            (campaigns ! i) ''product'' = Some (y ! i)"
    using build_training_data_nth [OF b] unfolding features_def by blast
  then show "\<exists>X y. build_training_data customers campaigns = Inr (X, y) \<and>
         length X = length campaigns \<and> length y = length campaigns \<and>
         (\<forall>i<length campaigns. \<exists>cust_id.
            (campaigns ! i) ''customer_id'' = Some cust_id \<and>
            X ! i =
              [''interest'' \<mapsto>
                 dict_get (dict_get customers cust_id Map.empty) ''interest'' (PStr ''unknown''),
               ''open_rate'' \<mapsto> dict_get (campaigns ! i) ''open_rate'' (PInt 0),
               ''click_rate'' \<mapsto> dict_get (campaigns ! i) ''click_rate'' (PInt 0),
               ''conversions'' \<mapsto> dict_get (campaigns ! i) ''conversions'' (PInt 0)] \<and>
            (campaigns ! i) ''product'' = Some (y ! i))"
    using b build_training_data_length [OF b] by blast
next
  assume "\<exists>c\<in>set campaigns. c ''customer_id'' = None \<or> c ''product'' = None"
  then show "\<exists>k\<in>{''customer_id'', ''product''}.
         build_training_data customers campaigns = Inl (KeyError k)"
    by (rule build_training_data_KeyError)
qed

theorem build_training_data_in_order_witness:
  "list_all (\<lambda>c. c ''customer_id'' \<noteq> None \<and> c ''product'' \<noteq> None) history4 \<and>
   (\<exists>X y. build_training_data customers0 history4 = Inr (X, y) \<and> length X = 4 \<and> length y = 4 \<and>
      X ! 0 = [''interest'' \<mapsto> PStr ''Computers'', ''open_rate'' \<mapsto> PInt 50,
               ''click_rate'' \<mapsto> PInt 20, ''conversions'' \<mapsto> PInt 3] \<and>
      y ! 0 = PStr ''Laptop'' \<and>
      X ! 1 = [''interest'' \<mapsto> PStr ''music'', ''open_rate'' \<mapsto> PInt 40,
               ''click_rate'' \<mapsto> PInt 10, ''conversions'' \<mapsto> PInt 1] \<and>
      y ! 1 = PStr ''Bluetooth Speaker'' \<and>
      X ! 2 = [''interest'' \<mapsto> PStr ''unknown'', ''open_rate'' \<mapsto> PInt 30,
               ''click_rate'' \<mapsto> PInt 5, ''conversions'' \<mapsto> PInt 0] \<and>
      y ! 2 = PStr ''Smartwatch'' \<and>
      X ! 3 = [''interest'' \<mapsto> PStr ''Computers'', ''open_rate'' \<mapsto> PInt 60,
               ''click_rate'' \<mapsto> PInt 30, ''conversions'' \<mapsto> PInt 2] \<and>
      y ! 3 = PStr ''Laptop'') \<and>
   (\<exists>c\<in>set (history4 @ [no_product]). c ''customer_id'' = None \<or> c ''product'' = None) \<and>
   build_training_data customers0 (history4 @ [no_product]) = Inl (KeyError ''product'')"
proof -
  have wf: "\<forall>c\<in>set history4. c ''customer_id'' \<noteq> None \<and> c ''product'' \<noteq> None"
    by (simp add: history4_def campaign_def)
  have bad: "\<exists>c\<in>set (history4 @ [no_product]). c ''customer_id'' = None \<or> c ''product'' = None"
    by (simp add: no_product_def)
  have len: "length history4 = 4"
    by (simp add: history4_def)
  from build_training_data_in_order [of history4 customers0] wf obtain X y where
    b: "build_training_data customers0 history4 = Inr (X, y)" "length X = length history4"
       "length y = length history4" and
    n: "\<And>i. i < length history4 \<Longrightarrow> \<exists>cust_id.
          (history4 ! i) ''customer_id'' = Some cust_id \<and>
          X ! i =
            [''interest'' \<mapsto>
               dict_get (dict_get customers0 cust_id Map.empty) ''interest'' (PStr ''unknown''),
             ''open_rate'' \<mapsto> dict_get (history4 ! i) ''open_rate'' (PInt 0),
             ''click_rate'' \<mapsto> dict_get (history4 ! i) ''click_rate'' (PInt 0),
             ''conversions'' \<mapsto> dict_get (history4 ! i) ''conversions'' (PInt 0)] \<and>
          (history4 ! i) ''product'' = Some (y ! i)"
    by blast
  have e0: "X ! 0 = [''interest'' \<mapsto> PStr ''Computers'', ''open_rate'' \<mapsto> PInt 50,
               ''click_rate'' \<mapsto> PInt 20, ''conversions'' \<mapsto> PInt 3] \<and> y ! 0 = PStr ''Laptop''"
    using n [of 0] by (auto simp: history4_def campaign_def customers0_def dict_get_def)
  have e1: "X ! 1 = [''interest'' \<mapsto> PStr ''music'', ''open_rate'' \<mapsto> PInt 40,
               ''click_rate'' \<mapsto> PInt 10, ''conversions'' \<mapsto> PInt 1] \<and>
            y ! 1 = PStr ''Bluetooth Speaker''"
    using n [of 1] by (auto simp: history4_def campaign_def customers0_def dict_get_def)
  have e2: "X ! 2 = [''interest'' \<mapsto> PStr ''unknown'', ''open_rate'' \<mapsto> PInt 30,
               ''click_rate'' \<mapsto> PInt 5, ''conversions'' \<mapsto> PInt 0] \<and> y ! 2 = PStr ''Smartwatch''"
    using n [of 2] by (auto simp: history4_def campaign_def customers0_def dict_get_def)
  have e3: "X ! 3 = [''interest'' \<mapsto> PStr ''Computers'', ''open_rate'' \<mapsto> PInt 60,
               ''click_rate'' \<mapsto> PInt 30, ''conversions'' \<mapsto> PInt 2] \<and> y ! 3 = PStr ''Laptop''"
    using n [of 3] by (auto simp: history4_def campaign_def customers0_def dict_get_def)
  have "build_training_data customers0 (history4 @ [no_product]) = Inl (KeyError ''product'')"
    using build_training_data_in_order [of "history4 @ [no_product]" customers0] bad
    by (simp add: history4_def campaign_def no_product_def dict_get_def)
  with b e0 e1 e2 e3 wf bad len show ?thesis
    by (simp add: list_all_iff)
qed

text \<open>
  Claim C7. For a campaign of a well-formed history, whatever the customers collection holds,
  the training example is there (the history yields as many examples as it has campaigns) and
  its feature dictionary has exactly the keys \<^verbatim>\<open>interest\<close>, \<^verbatim>\<open>open_rate\<close>, \<^verbatim>\<open>click_rate\<close> and
  \<^verbatim>\<open>conversions\<close>. The interest is \<^verbatim>\<open>"unknown"\<close> when the customer id does not resolve or the
  customer record has no interest tag, and the record's tag otherwise; each engagement value
  is the campaign's, and 0 when the campaign has none. The label is the campaign's product.
\<close>

theorem feature_builder:
  assumes "\<forall>c\<in>set campaigns. c ''customer_id'' \<noteq> None \<and> c ''product'' \<noteq> None"
    and "i < length campaigns"
  shows "\<exists>X y cust_id. build_training_data customers campaigns = Inr (X, y) \<and>
           length X = length campaigns \<and>
           (campaigns ! i) ''customer_id'' = Some cust_id \<and>
           dom (X ! i) = {''interest'', ''open_rate'', ''click_rate'', ''conversions''} \<and>
           (X ! i) ''interest'' =
             Some (case customers cust_id of
                     None \<Rightarrow> PStr ''unknown''
                   | Some cust \<Rightarrow> (case cust ''interest'' of None \<Rightarrow> PStr ''unknown'' | Some v \<Rightarrow> v)) \<and>
           (\<forall>k\<in>{''open_rate'', ''click_rate'', ''conversions''}.
              (X ! i) k = Some (case (campaigns ! i) k of None \<Rightarrow> PInt 0 | Some v \<Rightarrow> v)) \<and>
           (campaigns ! i) ''product'' = Some (y ! i)"
proof -
  from build_training_data_total [OF assms(1)] obtain X y
    where b: "build_training_data customers campaigns = Inr (X, y)" by blast
  from build_training_data_nth [OF b assms(2)] obtain cust_id where
    cid: "(campaigns ! i) ''customer_id'' = Some cust_id" and
    Xi: "X ! i = features (dict_get (dict_get customers cust_id Map.empty) ''interest'' (PStr ''unknown''))
               (dict_get (campaigns ! i) ''open_rate'' (PInt 0))
               (dict_get (campaigns ! i) ''click_rate'' (PInt 0))
               (dict_get (campaigns ! i) ''conversions'' (PInt 0))" and
    yi: "(campaigns ! i) ''product'' = Some (y ! i)"
    by blast
  have "length X = length campaigns"
    using build_training_data_length [OF b] by simp
  moreover have "dom (X ! i) = {''interest'', ''open_rate'', ''click_rate'', ''conversions''}"
    by (simp add: Xi features_dom)
  moreover have "(X ! i) ''interest'' =
             Some (case customers cust_id of
                     None \<Rightarrow> PStr ''unknown''
                   | Some cust \<Rightarrow> (case cust ''interest'' of None \<Rightarrow> PStr ''unknown'' | Some v \<Rightarrow> v))"
    by (simp add: Xi features_def dict_get_def split: option.splits)
  moreover have "\<forall>k\<in>{''open_rate'', ''click_rate'', ''conversions''}.
              (X ! i) k = Some (case (campaigns ! i) k of None \<Rightarrow> PInt 0 | Some v \<Rightarrow> v)"
    by (simp add: Xi features_def dict_get_def)
  ultimately show ?thesis
    using b cid yi by blast
qed

theorem feature_builder_witness:
  "list_all (\<lambda>c. c ''customer_id'' \<noteq> None \<and> c ''product'' \<noteq> None) history4 \<and>
   (2::nat) < length history4 \<and>
   (\<exists>X y. build_training_data customers0 history4 = Inr (X, y) \<and> length X = 4 \<and>
      dom (X ! 2) = {''interest'', ''open_rate'', ''click_rate'', ''conversions''} \<and>
      (X ! 2) ''interest'' = Some (PStr ''unknown'') \<and>
      (X ! 2) ''open_rate'' = Some (PInt 30) \<and>
      y ! 2 = PStr ''Smartwatch'')"
proof -
  have wf: "\<forall>c\<in>set history4. c ''customer_id'' \<noteq> None \<and> c ''product'' \<noteq> None"
    by (simp add: history4_def campaign_def)
  have i: "(2::nat) < length history4"
    by (simp add: history4_def)
  have c: "(history4 ! 2) ''customer_id'' = Some (PStr ''c9'')"
      "(history4 ! 2) ''open_rate'' = Some (PInt 30)"
      "(history4 ! 2) ''product'' = Some (PStr ''Smartwatch'')"
      "customers0 (PStr ''c9'') = None" "length history4 = 4"
    by (simp_all add: history4_def campaign_def customers0_def)
  from feature_builder [OF wf i, of customers0] wf i c show ?thesis
    by (auto simp: list_all_iff)
qed

section \<open>Training\<close>

text \<open>
  Claim C2. When the campaigns yield fewer than 5 training examples, \<open>train_and_save\<close>
  returns \<^verbatim>\<open>None\<close>, with any learner, and the file system is the one it started from: no model
  is created and a model saved before stays as it is.
\<close>

theorem train_and_save_insufficient_data:
  assumes "build_training_data customers campaigns = Inr (X, y)" and "length X < 5"
  shows "train_and_save sk s customers campaigns = (Inr None, s)"
  using assms by (simp add: train_and_save_def)

theorem train_and_save_insufficient_data_witness:
  "(\<exists>X y. build_training_data customers0 history4 = Inr (X, y) \<and> length X < 5) \<and>
   train_and_save table_learner saved customers0 history4 = (Inr None, saved) \<and>
   model_path saved = Some (Pickle old_model)"
proof -
  have wf: "\<forall>c\<in>set history4. c ''customer_id'' \<noteq> None \<and> c ''product'' \<noteq> None"
    by (simp add: history4_def campaign_def)
  from build_training_data_total [OF wf] obtain X y
    where b: "build_training_data customers0 history4 = Inr (X, y)" by blast
  from build_training_data_length [OF b] have l: "length X < 5"
    by (simp add: history4_def)
  from train_and_save_insufficient_data [OF b l] b l show ?thesis
    by (auto simp: saved_def)
qed

section \<open>Recommending without a model\<close>

lemma load_model_None: "model_path s = None \<Longrightarrow> load_model s = Inr None"
  by (simp add: load_model_def)


lemma recommend_no_model:
  "model_path s = None \<Longrightarrow>
   recommend s customers campaigns customer_id =
     (case dict_get (dict_get customers customer_id Map.empty) ''interest'' (PStr ''unknown'') of
        PStr i \<Rightarrow> Inr (dict_get mapping (lower i) (PStr ''Wireless Headphones''))
      | PInt n \<Rightarrow> Inl AttributeError)"
  by (simp add: recommend_def load_model_None Let_def)




text \<open>
  Claim C9. With no model file, the result of \<open>recommend\<close> is a function of the interest it
  resolves for the customer id (the tag of the customer's record, \<^verbatim>\<open>"unknown"\<close> without
  one): two calls that resolve the same interest return the same, whatever the two campaigns
  lists and the other fields and records of the two customers collections are.
\<close>

theorem recommend_fallback_interest_only:
  assumes "model_path s1 = None" and "model_path s2 = None"
    and "dict_get (dict_get customers1 id1 Map.empty) ''interest'' (PStr ''unknown'') =
         dict_get (dict_get customers2 id2 Map.empty) ''interest'' (PStr ''unknown'')"
  shows "recommend s1 customers1 campaigns1 id1 = recommend s2 customers2 campaigns2 id2"
  using assms by (simp add: recommend_no_model)

theorem recommend_fallback_interest_only_witness:
  "model_path fresh = None \<and>
   dict_get (dict_get customers0 (PStr ''c1'') Map.empty) ''interest'' (PStr ''unknown'') =
     dict_get (dict_get [PStr ''z'' \<mapsto> [''interest'' \<mapsto> PStr ''Computers'', ''name'' \<mapsto> PStr ''Zoe'']]
        (PStr ''z'') Map.empty) ''interest'' (PStr ''unknown'') \<and>
   recommend fresh customers0 history4 (PStr ''c1'') =
     recommend fresh [PStr ''z'' \<mapsto> [''interest'' \<mapsto> PStr ''Computers'', ''name'' \<mapsto> PStr ''Zoe'']]
       [no_product] (PStr ''z'')"
proof -
  have f: "model_path fresh = None"
    by (simp add: fresh_def)
  have i: "dict_get (dict_get customers0 (PStr ''c1'') Map.empty) ''interest'' (PStr ''unknown'') =
     dict_get (dict_get [PStr ''z'' \<mapsto> [''interest'' \<mapsto> PStr ''Computers'', ''name'' \<mapsto> PStr ''Zoe'']]
        (PStr ''z'') Map.empty) ''interest'' (PStr ''unknown'')"
    by (simp add: customers0_def dict_get_def)
  from recommend_fallback_interest_only [OF f f i] f i show ?thesis
    by simp
qed

text \<open>
  Claim C4 says that a model file that cannot be loaded is treated like a missing one. It is
  not: on a file that holds no pickle \<open>recommend\<close> raises the error of the load, where the
  same call without the file returns the fallback product.
\<close>

theorem recommend_load_failure_counterexample:
  "load_model corrupt = Inl UnpicklingError \<and>
   recommend corrupt customers0 history4 (PStr ''c2'') = Inl UnpicklingError \<and>
   recommend (corrupt\<lparr>model_path := None\<rparr>) customers0 history4 (PStr ''c2'') =
     Inr (PStr ''Bluetooth Speaker'')"
  by (simp add: recommend_def load_model_def pickle_load_def corrupt_def customers0_def
      dict_get_def mapping_def lower_def char_lower_def)

text \<open>
  Claim C4, amended. Only a missing model file counts as no model. When \<open>load_model\<close>
  raises, which it does only on a file that exists (unreadable, empty or no pickle),
  \<open>recommend\<close> raises the same error to its caller and computes no fallback.
\<close>

theorem recommend_load_failure_raises:
  assumes "load_model s = Inl e"
  shows "recommend s customers campaigns customer_id = Inl e \<and> model_path s \<noteq> None"
  using assms by (auto simp: recommend_def load_model_def split: option.splits)

theorem recommend_load_failure_raises_witness:
  "load_model (saved\<lparr>readable := False\<rparr>) = Inl OSError \<and>
   recommend (saved\<lparr>readable := False\<rparr>) customers0 history4 (PStr ''c2'') = Inl OSError \<and>
   model_path (saved\<lparr>readable := False\<rparr>) \<noteq> None"
proof -
  have l: "load_model (saved\<lparr>readable := False\<rparr>) = Inl OSError"
    by (simp add: load_model_def pickle_load_def saved_def)
  from recommend_load_failure_raises [OF l] l show ?thesis
    by simp
qed

section \<open>Recommending with a model\<close>







section \<open>Training on enough data\<close>

lemma train_and_save_fitted:
  assumes "build_training_data customers campaigns = Inr (X, y)" and "5 \<le> length X"
    and "DictVectorizer_fit sk X = Inr vec"
    and "LogisticRegression_fit sk (map vec X) y = Inr clf"
  shows "train_and_save sk s customers campaigns =
     (case open_wb s of
        Inl e \<Rightarrow> (Inl e, s)
      | Inr s' \<Rightarrow> (Inr (Some (vec, clf)), pickle_dump (vec, clf) s'))"
  using assms by (simp add: train_and_save_def)

text \<open>
  A fit that raises makes \<open>train_and_save\<close> raise the same error, and the file system stays
  as it was.
\<close>

lemma train_and_save_fit_raises:
  assumes "build_training_data customers campaigns = Inr (X, y)" and "5 \<le> length X"
    and "DictVectorizer_fit sk X = Inl e \<or>
         (\<exists>vec. DictVectorizer_fit sk X = Inr vec \<and>
                LogisticRegression_fit sk (map vec X) y = Inl e)"
  shows "train_and_save sk s customers campaigns = (Inl e, s)"
  using assms by (auto simp: train_and_save_def)


lemma history5_training_data:
  "build_training_data customers0 history5 =
     Inr ([features (PStr ''Computers'') (PInt 50) (PInt 20) (PInt 3),
           features (PStr ''music'') (PInt 40) (PInt 10) (PInt 1),
           features (PStr ''unknown'') (PInt 30) (PInt 5) (PInt 0),
           features (PStr ''Computers'') (PInt 60) (PInt 30) (PInt 2),
           features (PStr ''music'') (PInt 70) (PInt 35) (PInt 4)],
          [PStr ''Laptop'', PStr ''Bluetooth Speaker'', PStr ''Smartwatch'', PStr ''Laptop'',
           PStr ''Bluetooth Speaker''])"
  by (simp add: history5_def history4_def campaign_def customers0_def dict_get_def)

lemma build_training_data_labels:
  "build_training_data customers campaigns = Inr (X, y) \<Longrightarrow>
   \<forall>c\<in>set campaigns. c ''product'' = Some label \<Longrightarrow> set y \<subseteq> {label}"
  by (induction campaigns arbitrary: X y)
    (auto simp: build_training_data_Inr_Cons simp del: build_training_data.simps(2))

lemma LogisticRegression_fit_single_label:
  assumes "set y \<subseteq> {label}"
  shows "LogisticRegression_fit sk X_vec y = Inl ValueError"
proof -
  have "card (set y) \<le> card {label}"
    using assms by (intro card_mono) simp_all
  then have "length (remdups y) < 2"
    by (simp add: length_remdups_card_conv)
  then show ?thesis
    by (simp add: LogisticRegression_fit_def)
qed

text \<open>
  Claim C1 says that \<open>train_and_save\<close> succeeds on every history of at least 5 campaigns that
  have a \<^verbatim>\<open>customer_id\<close> and a \<^verbatim>\<open>product\<close>, the history with a single product included. On
  such a history the code does not get to the model file. Whenever all campaigns of a history
  of at least 5 have the same product, \<open>train_and_save\<close> raises, with every learner and every
  file system, and leaves the file system as it was: the test of line 48 counts the examples,
  not the labels, so \<^verbatim>\<open>clf.fit\<close> is given labels of a single class and raises a \<open>ValueError\<close>
  (the error is that of the vectorizer's fit if that one raises first). Nothing in
  \<open>train_and_save\<close> or in its caller catches it.
\<close>

theorem train_and_save_single_label:
  assumes "\<forall>c\<in>set campaigns. c ''customer_id'' \<noteq> None \<and> c ''product'' = Some label"
    and "5 \<le> length campaigns"
  shows "\<exists>X y. build_training_data customers campaigns = Inr (X, y) \<and>
           train_and_save sk s customers campaigns =
             (Inl (case DictVectorizer_fit sk X of Inl e \<Rightarrow> e | Inr vec \<Rightarrow> ValueError), s)"
proof -
  from assms(1) have "\<forall>c\<in>set campaigns. c ''customer_id'' \<noteq> None \<and> c ''product'' \<noteq> None"
    by auto
  from build_training_data_total [OF this] obtain X y
    where b: "build_training_data customers campaigns = Inr (X, y)" by blast
  from build_training_data_length [OF b] assms(2) have l: "\<not> length X < 5"
    by simp
  from assms(1) have "\<forall>c\<in>set campaigns. c ''product'' = Some label"
    by simp
  from build_training_data_labels [OF b this]
  have f: "\<And>X_vec. LogisticRegression_fit sk X_vec y = Inl ValueError"
    by (rule LogisticRegression_fit_single_label)
  have "train_and_save sk s customers campaigns =
             (Inl (case DictVectorizer_fit sk X of Inl e \<Rightarrow> e | Inr vec \<Rightarrow> ValueError), s)"
    by (simp add: train_and_save_def b l f split: sum.splits)
  with b show ?thesis by blast
qed

text \<open>
  The history of five campaigns for the laptop, with no model file yet: \<open>train_and_save\<close>
  raises the \<open>ValueError\<close> and there is still no model. A \<open>recommend\<close> afterwards for the
  sixth customer does answer the laptop, from the fallback table and not from a model.
\<close>

theorem train_and_save_single_label_witness:
  "list_all (\<lambda>c. c ''customer_id'' \<noteq> None \<and> c ''product'' = Some (PStr ''Laptop'')) laptops5 \<and>
   5 \<le> length laptops5 \<and>
   train_and_save table_learner fresh computers6 laptops5 = (Inl ValueError, fresh) \<and>
   load_model fresh = Inr None \<and>
   recommend fresh computers6 laptops5 (PStr ''c6'') = Inr (PStr ''Laptop'')"
proof -
  have wf: "\<forall>c\<in>set laptops5. c ''customer_id'' \<noteq> None \<and> c ''product'' = Some (PStr ''Laptop'')"
    by (simp add: laptops5_def campaign_def)
  have len: "5 \<le> length laptops5"
    by (simp add: laptops5_def)
  from train_and_save_single_label [OF wf len, of computers6 table_learner fresh]
  have "train_and_save table_learner fresh computers6 laptops5 = (Inl ValueError, fresh)"
    by (auto simp: table_learner_def)
  moreover have "load_model fresh = Inr None"
    by (simp add: load_model_def fresh_def)
  moreover have "recommend fresh computers6 laptops5 (PStr ''c6'') = Inr (PStr ''Laptop'')"
    by (simp add: recommend_def load_model_def fresh_def computers6_def dict_get_def mapping_def
        lower_def char_lower_def)
  ultimately show ?thesis
    using wf len by (simp add: list_all_iff)
qed




section \<open>Interrupting the save\<close>

text \<open>
  Claim C8 says that the save is all-or-nothing. It is not: saving a new model over an older
  one first leaves a model file that is neither the old pickle nor the new one. The old model,
  which loaded before, is gone, and \<open>load_model\<close> raises on what is there.
\<close>

theorem save_in_place_counterexample:
  "save_states saved probe_model ! 0 = saved\<lparr>model_path := Some Empty\<rparr> \<and>
   model_path (save_states saved probe_model ! 0) \<noteq> model_path saved \<and>
   model_path (save_states saved probe_model ! 0) \<noteq> Some (Pickle probe_model) \<and>
   load_model saved = Inr (Some old_model) \<and>
   load_model (save_states saved probe_model ! 0) = Inl EOFError"
  by (simp add: save_states_def open_wb_def load_model_def pickle_load_def saved_def)

text \<open>
  Claim C8, amended. The save writes in place, in two steps, with no temporary file and no
  rename: the \<^verbatim>\<open>open\<close> empties the model file, then the dump fills it with the pickle of the
  new pair, which is the state \<open>train_and_save\<close> returns. In between, and after an
  interruption there, the previous model is lost and the file holds no pair: \<open>load_model\<close>
  raises on it, and so does \<open>recommend\<close>.
\<close>

theorem save_in_place:
  assumes "build_training_data customers campaigns = Inr (X, y)" and "5 \<le> length X"
    and "DictVectorizer_fit sk X = Inr vec"
    and "LogisticRegression_fit sk (map vec X) y = Inr clf"
    and "writable s"
  shows "save_states s (vec, clf) =
           [s\<lparr>model_path := Some Empty\<rparr>, snd (train_and_save sk s customers campaigns)] \<and>
         model_path (snd (train_and_save sk s customers campaigns)) = Some (Pickle (vec, clf)) \<and>
         load_model (s\<lparr>model_path := Some Empty\<rparr>) =
           Inl (if readable s then EOFError else OSError) \<and>
         recommend (s\<lparr>model_path := Some Empty\<rparr>) customers' campaigns' customer_id =
           Inl (if readable s then EOFError else OSError)"
proof -
  have t: "train_and_save sk s customers campaigns =
      (Inr (Some (vec, clf)), pickle_dump (vec, clf) (s\<lparr>model_path := Some Empty\<rparr>))"
    using train_and_save_fitted [OF assms(1-4), of s] assms(5) by (simp add: open_wb_def)
  have l: "load_model (s\<lparr>model_path := Some Empty\<rparr>) =
           Inl (if readable s then EOFError else OSError)"
    by (simp add: load_model_def pickle_load_def)
  have "recommend (s\<lparr>model_path := Some Empty\<rparr>) customers' campaigns' customer_id =
           Inl (if readable s then EOFError else OSError)"
    by (simp add: recommend_def l)
  with t l assms(5) show ?thesis
    by (simp add: save_states_def open_wb_def pickle_dump_def)
qed

theorem save_in_place_witness:
  "writable saved \<and>
   (\<exists>m. save_states saved m =
          [saved\<lparr>model_path := Some Empty\<rparr>,
           snd (train_and_save table_learner saved customers0 history5)] \<and>
        model_path (snd (train_and_save table_learner saved customers0 history5)) =
          Some (Pickle m)) \<and>
   load_model (saved\<lparr>model_path := Some Empty\<rparr>) = Inl EOFError \<and>
   recommend (saved\<lparr>model_path := Some Empty\<rparr>) customers0 history5 (PStr ''c1'') = Inl EOFError"
proof -
  let ?X = "[features (PStr ''Computers'') (PInt 50) (PInt 20) (PInt 3),
           features (PStr ''music'') (PInt 40) (PInt 10) (PInt 1),
           features (PStr ''unknown'') (PInt 30) (PInt 5) (PInt 0),
           features (PStr ''Computers'') (PInt 60) (PInt 30) (PInt 2),
           features (PStr ''music'') (PInt 70) (PInt 35) (PInt 4)]"
  let ?y = "[PStr ''Laptop'', PStr ''Bluetooth Speaker'', PStr ''Smartwatch'', PStr ''Laptop'',
           PStr ''Bluetooth Speaker'']"
  let ?vec = "\<lambda>d::pydict. d"
  let ?clf = "\<lambda>x::pydict. case map_of (zip (map (\<lambda>d. d ''interest'') (map ?vec ?X)) ?y) (x ''interest'') of
                         None \<Rightarrow> hd ?y
                       | Some label \<Rightarrow> label"
  have len: "5 \<le> length ?X"
    by simp
  have v: "DictVectorizer_fit table_learner ?X = Inr ?vec"
    by (simp add: table_learner_def)
  have c: "LogisticRegression_fit table_learner (map ?vec ?X) ?y = Inr ?clf"
    by (simp add: table_learner_def LogisticRegression_fit_def)
  have w: "writable saved" and r: "readable saved"
    by (simp_all add: saved_def)
  from save_in_place [OF history5_training_data len v c w, of customers0 history5 "PStr ''c1''"] w r
  show ?thesis
    by simp
qed

end
